theory Spec2Isabelle
  imports Complex_Main "HOL-Library.Word"
begin

section \<open>JavaScript values used by \<open>src/App.jsx\<close>\<close>

subsection \<open>Strings\<close>

text \<open>
  A JavaScript string is a sequence of UTF-16 code units. \<open>ascii\<close> writes an ASCII
  literal of the source as such a sequence.
\<close>

type_synonym jsstring = "16 word list"

definition ascii :: "string \<Rightarrow> jsstring" where
  "ascii s = map of_char s"

text \<open>
  \<open>String.prototype.trim\<close> removes, at both ends, the code units of ECMAScript's
  WhiteSpace and LineTerminator productions: TAB, LF, VT, FF, CR, SPACE, NBSP, the
  other space separators of Unicode (U+1680, U+2000 to U+200A, U+202F, U+205F, U+3000),
  LS, PS and the byte order mark.
\<close>

definition is_white_space :: "16 word \<Rightarrow> bool" where
  "is_white_space u \<longleftrightarrow>
     u = 0x9 \<or> u = 0xA \<or> u = 0xB \<or> u = 0xC \<or> u = 0xD \<or> u = 0x20 \<or> u = 0xA0 \<or>
     u = 0x1680 \<or> (0x2000 \<le> u \<and> u \<le> 0x200A) \<or> u = 0x2028 \<or> u = 0x2029 \<or>
     u = 0x202F \<or> u = 0x205F \<or> u = 0x3000 \<or> u = 0xFEFF"

definition trim :: "jsstring \<Rightarrow> jsstring" where
  "trim s = rev (dropWhile is_white_space (rev (dropWhile is_white_space s)))"

text \<open>
  The decimal digits of a natural number, and \<open>Number::toString\<close> on an integer (exact
  below \<open>10^21\<close>, where JavaScript switches to exponent notation): what a template literal
  puts for \<open>${Math.floor(...)}\<close>.
\<close>

fun digits :: "nat \<Rightarrow> jsstring" where
  "digits n = (if n < 10 then [of_nat (48 + n)] else digits (n div 10) @ [of_nat (48 + n mod 10)])"

declare digits.simps [simp del]

definition number_to_string :: "int \<Rightarrow> jsstring" where
  "number_to_string n = (if n < 0 then 0x2D # digits (nat (- n)) else digits (nat n))"

subsection \<open>Values\<close>

text \<open>
  What \<open>res.json()\<close> resolves to. A number is kept by its value (the doubles that
  \<open>JSON.parse\<close> yields are rationals, save for the infinities of an oversized literal,
  which are not represented). An object is its list of properties; \<open>map_of\<close> reads one.
  A \<open>jsval\<close> is such a value or \<open>undefined\<close> (\<open>None\<close>).
\<close>

datatype json =
    JNull
  | JBool bool
  | JNum rat
  | JStr jsstring
  | JArr "json list"
  | JObj "(jsstring \<times> json) list"

type_synonym jsval = "json option"

text \<open>\<open>ToBoolean\<close>: what \<open>!v\<close>, \<open>v || w\<close>, \<open>v && w\<close> and \<open>v ? a : b\<close> test.\<close>

fun truthy :: "jsval \<Rightarrow> bool" where
  "truthy None = False"
| "truthy (Some JNull) = False"
| "truthy (Some (JBool b)) = b"
| "truthy (Some (JNum n)) = (n \<noteq> 0)"
| "truthy (Some (JStr s)) = (s \<noteq> [])"
| "truthy (Some (JArr xs)) = True"
| "truthy (Some (JObj kvs)) = True"

text \<open>\<open>v || w\<close>, and \<open>v || d\<close> where the right operand is a defined value.\<close>

definition js_or :: "jsval \<Rightarrow> jsval \<Rightarrow> jsval" where
  "js_or v w = (if truthy v then v else w)"

fun or_else :: "jsval \<Rightarrow> json \<Rightarrow> json" where
  "or_else None d = d"
| "or_else (Some v) d = (if truthy (Some v) then v else d)"

datatype exn = TypeError

text \<open>
  \<open>v.k\<close> for a property name \<open>k\<close> that is neither \<open>length\<close> nor an array index
  (\<open>namespaces\<close>, \<open>documents\<close>, \<open>detail\<close>, \<open>name\<close>): a TypeError on \<open>null\<close> and
  \<open>undefined\<close>, the property of an object, \<open>undefined\<close> on every other value.
\<close>

fun get :: "string \<Rightarrow> jsval \<Rightarrow> exn + jsval" where
  "get k None = Inl TypeError"
| "get k (Some JNull) = Inl TypeError"
| "get k (Some (JObj kvs)) = Inr (map_of kvs (ascii k))"
| "get k (Some (JBool b)) = Inr None"
| "get k (Some (JNum n)) = Inr None"
| "get k (Some (JStr s)) = Inr None"
| "get k (Some (JArr xs)) = Inr None"

text \<open>\<open>v?.length\<close>: \<open>undefined\<close> on \<open>null\<close> and \<open>undefined\<close>, without an exception.\<close>

fun opt_length :: "jsval \<Rightarrow> jsval" where
  "opt_length None = None"
| "opt_length (Some JNull) = None"
| "opt_length (Some (JArr xs)) = Some (JNum (of_nat (length xs)))"
| "opt_length (Some (JStr s)) = Some (JNum (of_nat (length s)))"
| "opt_length (Some (JObj kvs)) = map_of kvs (ascii ''length'')"
| "opt_length (Some (JBool b)) = None"
| "opt_length (Some (JNum n)) = None"

text \<open>
  \<open>v > 0\<close>. \<open>undefined\<close> converts to NaN, \<open>null\<close> to 0, a boolean to 0 or 1. A string,
  an array or an object goes through the engine's \<open>ToPrimitive\<close> and \<open>ToNumber\<close>, which
  are not part of the repository: \<open>coerce v\<close> stands for the outcome of the comparison
  there, a TypeError when the object has no primitive value.
\<close>

fun gt_zero :: "(json \<Rightarrow> exn + bool) \<Rightarrow> jsval \<Rightarrow> exn + bool" where
  "gt_zero coerce None = Inr False"
| "gt_zero coerce (Some JNull) = Inr False"
| "gt_zero coerce (Some (JBool b)) = Inr b"
| "gt_zero coerce (Some (JNum n)) = Inr (0 < n)"
| "gt_zero coerce (Some (JStr s)) = coerce (JStr s)"
| "gt_zero coerce (Some (JArr xs)) = coerce (JArr xs)"
| "gt_zero coerce (Some (JObj kvs)) = coerce (JObj kvs)"

text \<open>\<open>v[0]\<close>.\<close>

fun first_elem :: "jsval \<Rightarrow> exn + jsval" where
  "first_elem None = Inl TypeError"
| "first_elem (Some JNull) = Inl TypeError"
| "first_elem (Some (JArr xs)) = Inr (case xs of [] \<Rightarrow> None | x # _ \<Rightarrow> Some x)"
| "first_elem (Some (JStr s)) = Inr (case s of [] \<Rightarrow> None | u # _ \<Rightarrow> Some (JStr [u]))"
| "first_elem (Some (JObj kvs)) = Inr (map_of kvs (ascii ''0''))"
| "first_elem (Some (JBool b)) = Inr None"
| "first_elem (Some (JNum n)) = Inr None"

text \<open>
  \<open>${v}\<close> in a template literal: a string as it is; any other value through the engine's
  \<open>ToString\<close>, taken as the parameter \<open>to_string\<close> (a TypeError when an object has no
  primitive value).
\<close>

fun template :: "(jsval \<Rightarrow> exn + jsstring) \<Rightarrow> jsval \<Rightarrow> exn + jsstring" where
  "template to_string (Some (JStr s)) = Inr s"
| "template to_string v = to_string v"

subsection \<open>Promises and responses\<close>

text \<open>
  The state in which an awaited promise ends: never settled (the \<open>await\<close> does not
  resume), rejected, or fulfilled with a value. \<open>fetch\<close> rejects when no response is
  obtained; it fulfils on every HTTP status. \<open>res.json()\<close> is a promise of its own, which
  rejects when the body is not JSON.
\<close>

datatype 'a promise = Pending | Rejected | Fulfilled 'a

record response =
  status :: nat
  body :: "json promise"

definition ok :: "response \<Rightarrow> bool" where
  "ok r \<longleftrightarrow> 200 \<le> status r \<and> status r \<le> 299"

text \<open>\<open>Promise.all\<close> of three promises rejects as soon as one of them rejects.\<close>

definition promise_all :: "'a promise \<Rightarrow> 'b promise \<Rightarrow> 'c promise \<Rightarrow> ('a \<times> 'b \<times> 'c) promise" where
  "promise_all p q r =
     (if p = Rejected \<or> q = Rejected \<or> r = Rejected then Rejected
      else case (p, q, r) of
             (Fulfilled a, Fulfilled b, Fulfilled c) \<Rightarrow> Fulfilled (a, b, c)
           | _ \<Rightarrow> Pending)"

section \<open>The component's state\<close>

text \<open>
  The \<open>useState\<close> cells of \<open>App\<close> (lines 7 to 15), and the due times of the pending
  \<open>setTimeout\<close> callbacks of \<open>showToast\<close> (milliseconds on the event loop's clock).
\<close>

record notification =
  message :: json
  type :: jsstring

record app_state =
  namespaces :: json
  recentDocs :: json
  stats :: json
  selectedNamespace :: jsval
  filterNamespace :: jsval
  "text" :: jsstring
  newNamespace :: jsstring
  loading :: bool
  toast :: "notification option"
  timers :: "nat list"

definition init :: app_state where
  "init = \<lparr> namespaces = JArr [], recentDocs = JArr [],
            stats = JObj [(ascii ''total_documents'', JNum 0), (ascii ''vectorized'', JNum 0)],
            selectedNamespace = Some (JStr []), filterNamespace = Some JNull,
            text = [], newNamespace = [], loading = False, toast = None, timers = [] \<rparr>"

text \<open>
  What a handler does, in order: calls of the state setters, of \<open>showToast\<close>, of
  \<open>fetch\<close> (the request it sends), of \<open>fetchData\<close>, of \<open>console.error\<close> and of
  \<open>e.preventDefault\<close>.
\<close>

datatype request =
    GetNamespaces
  | GetStats
  | GetRecent jsval
  | PostIngest jsval jsstring

datatype action =
    SetNamespaces json
  | SetStats json
  | SetRecentDocs json
  | SetSelectedNamespace jsval
  | SetText jsstring
  | SetNewNamespace jsstring
  | SetLoading bool
  | ShowToast json jsstring
  | Fetch request
  | CallFetchData
  | ConsoleError
  | PreventDefault

section \<open>showToast (lines 17 to 20)\<close>

text \<open>
  \<open>setToast({ message, type })\<close>, then \<open>setTimeout(() => setToast(null), 4000)\<close>: the
  timer is added to the pending ones; nothing is cancelled (there is no \<open>clearTimeout\<close>
  in the file).
\<close>

definition showToast :: "nat \<Rightarrow> json \<Rightarrow> jsstring \<Rightarrow> app_state \<Rightarrow> app_state" where
  "showToast now msg ty st =
     st\<lparr> toast := Some \<lparr> message = msg, type = ty \<rparr>, timers := timers st @ [now + 4000] \<rparr>"

text \<open>
  The clock reaches \<open>t\<close>: every pending timer due by then has run its callback
  \<open>setToast(null)\<close> and is gone. (A timer is taken to fire when it is due; a browser
  may run it later, never earlier.)
\<close>

definition advance :: "nat \<Rightarrow> app_state \<Rightarrow> app_state" where
  "advance t st =
     (if list_ex (\<lambda>d. d \<le> t) (timers st)
      then st\<lparr> toast := None, timers := filter (\<lambda>d. t < d) (timers st) \<rparr>
      else st)"

section \<open>Running a handler's actions on the state\<close>

fun apply_action :: "nat \<Rightarrow> app_state \<Rightarrow> action \<Rightarrow> app_state" where
  "apply_action now st (SetNamespaces v) = st\<lparr> namespaces := v \<rparr>"
| "apply_action now st (SetStats v) = st\<lparr> stats := v \<rparr>"
| "apply_action now st (SetRecentDocs v) = st\<lparr> recentDocs := v \<rparr>"
| "apply_action now st (SetSelectedNamespace v) = st\<lparr> selectedNamespace := v \<rparr>"
| "apply_action now st (SetText s) = st\<lparr> text := s \<rparr>"
| "apply_action now st (SetNewNamespace s) = st\<lparr> newNamespace := s \<rparr>"
| "apply_action now st (SetLoading b) = st\<lparr> loading := b \<rparr>"
| "apply_action now st (ShowToast msg ty) = showToast now msg ty st"
| "apply_action now st (Fetch r) = st"
| "apply_action now st CallFetchData = st"
| "apply_action now st ConsoleError = st"
| "apply_action now st PreventDefault = st"

definition run :: "nat \<Rightarrow> action list \<Rightarrow> app_state \<Rightarrow> app_state" where
  "run now acts st = foldl (apply_action now) st acts"

text \<open>The notifications raised and the requests sent by a list of actions.\<close>

fun toasts :: "action list \<Rightarrow> (json \<times> jsstring) list" where
  "toasts [] = []"
| "toasts (ShowToast msg ty # as) = (msg, ty) # toasts as"
| "toasts (a # as) = toasts as"

fun requests :: "action list \<Rightarrow> request list" where
  "requests [] = []"
| "requests (Fetch r # as) = r # requests as"
| "requests (a # as) = requests as"

section \<open>fetchData (lines 22 to 43)\<close>

text \<open>
  Lines 37 to 39: \<open>if (!selectedNamespace && nsData.namespaces?.length > 0)
  setSelectedNamespace(nsData.namespaces[0].name)\<close>. \<open>selected\<close> is the value the
  callback closed over.
\<close>

definition select_default :: "(json \<Rightarrow> exn + bool) \<Rightarrow> jsval \<Rightarrow> json \<Rightarrow> exn + action list" where
  "select_default coerce selected nsData =
     (if truthy selected then Inr []
      else case get ''namespaces'' (Some nsData) of
             Inl e \<Rightarrow> Inl e
           | Inr nss \<Rightarrow>
               (case gt_zero coerce (opt_length nss) of
                  Inl e \<Rightarrow> Inl e
                | Inr False \<Rightarrow> Inr []
                | Inr True \<Rightarrow>
                    (case first_elem nss of
                       Inl e \<Rightarrow> Inl e
                     | Inr x \<Rightarrow> (case get ''name'' x of
                                  Inl e \<Rightarrow> Inl e
                                | Inr n \<Rightarrow> Inr [SetSelectedNamespace n]))))"

text \<open>
  Lines 33 to 39 under the \<open>catch\<close> of lines 40 to 42: an exception ends the block where
  it is thrown, after the setters already called, and is logged.
\<close>

definition apply_bodies :: "(json \<Rightarrow> exn + bool) \<Rightarrow> jsval \<Rightarrow> json \<Rightarrow> json \<Rightarrow> json \<Rightarrow> action list" where
  "apply_bodies coerce selected nsData statsData recentData =
     (case get ''namespaces'' (Some nsData) of
        Inl e \<Rightarrow> [ConsoleError]
      | Inr nss \<Rightarrow>
          SetNamespaces (or_else nss (JArr [])) # SetStats statsData #
          (case get ''documents'' (Some recentData) of
             Inl e \<Rightarrow> [ConsoleError]
           | Inr docs \<Rightarrow>
               SetRecentDocs (or_else docs (JArr [])) #
               (case select_default coerce selected nsData of
                  Inl e \<Rightarrow> [ConsoleError]
                | Inr acts \<Rightarrow> acts)))"

text \<open>
  Lines 29 to 31: the three bodies are read one after the other, before any setter is
  called.
\<close>

definition read_bodies :: "(json \<Rightarrow> exn + bool) \<Rightarrow> jsval \<Rightarrow> response \<Rightarrow> response \<Rightarrow> response \<Rightarrow> action list" where
  "read_bodies coerce selected nsRes statsRes recentRes =
     (case body nsRes of
        Pending \<Rightarrow> []
      | Rejected \<Rightarrow> [ConsoleError]
      | Fulfilled nsData \<Rightarrow>
          (case body statsRes of
             Pending \<Rightarrow> []
           | Rejected \<Rightarrow> [ConsoleError]
           | Fulfilled statsData \<Rightarrow>
               (case body recentRes of
                  Pending \<Rightarrow> []
                | Rejected \<Rightarrow> [ConsoleError]
                | Fulfilled recentData \<Rightarrow>
                    apply_bodies coerce selected nsData statsData recentData)))"

text \<open>
  The whole callback. \<open>cl\<close> is the state of the render that created it (it reads
  \<open>filterNamespace\<close> and \<open>selectedNamespace\<close> from there); the three promises are what
  the three \<open>fetch\<close> calls come to.
\<close>

definition fetchData :: "(json \<Rightarrow> exn + bool) \<Rightarrow> app_state \<Rightarrow> response promise \<Rightarrow> response promise \<Rightarrow> response promise \<Rightarrow> action list" where
  "fetchData coerce cl nsP statsP recentP =
     [Fetch GetNamespaces, Fetch GetStats,
      Fetch (GetRecent (if truthy (filterNamespace cl) then filterNamespace cl else None))] @
     (case promise_all nsP statsP recentP of
        Pending \<Rightarrow> []
      | Rejected \<Rightarrow> [ConsoleError]
      | Fulfilled (nsRes, statsRes, recentRes) \<Rightarrow>
          read_bodies coerce (selectedNamespace cl) nsRes statsRes recentRes)"

text \<open>A sync: the callback of the current render runs to its end on the current state.\<close>

definition sync :: "(json \<Rightarrow> exn + bool) \<Rightarrow> nat \<Rightarrow> response promise \<Rightarrow> response promise \<Rightarrow> response promise \<Rightarrow> app_state \<Rightarrow> app_state" where
  "sync coerce now nsP statsP recentP st = run now (fetchData coerce st nsP statsP recentP) st"


text \<open>A read request succeeds with the body \<open>v\<close>.\<close>

fun succeeds_with :: "response promise \<Rightarrow> json \<Rightarrow> bool" where
  "succeeds_with (Fulfilled r) v = (body r = Fulfilled v)"
| "succeeds_with p v = False"

section \<open>handleIngest (lines 51 to 81)\<close>

text \<open>Line 53: \<open>newNamespace.trim() || selectedNamespace\<close>.\<close>

definition target_namespace :: "app_state \<Rightarrow> jsval" where
  "target_namespace st = js_or (Some (JStr (trim (newNamespace st)))) (selectedNamespace st)"

text \<open>The messages of lines 55, 69, 74 and 77 (U+2713 is the check mark, U+2014 the dash).\<close>

definition required_message :: jsstring where
  "required_message = ascii ''Namespace and text are required''"

definition success_message :: "jsstring \<Rightarrow> jsstring" where
  "success_message ns =
     [0x2713] @ ascii '' Ingested into '' @ [0x22] @ ns @ [0x22, 0x20, 0x2014] @
     ascii '' now queryable by the AI agent''"

definition failed_message :: jsstring where
  "failed_message = ascii ''Ingestion failed''"

definition network_message :: jsstring where
  "network_message = ascii ''Network error '' @ [0x2014] @ ascii '' is the backend running?''"

text \<open>
  Lines 68 to 75, reached with the response and its parsed body, under the \<open>catch\<close> of
  line 76: \<open>${ns}\<close> can throw there, and \<open>data.detail\<close> throws on a \<open>null\<close> body.
\<close>

definition on_response :: "(jsval \<Rightarrow> exn + jsstring) \<Rightarrow> jsval \<Rightarrow> response \<Rightarrow> json \<Rightarrow> action list" where
  "on_response to_string ns res data =
     (if ok res
      then (case template to_string ns of
              Inl e \<Rightarrow> [ShowToast (JStr network_message) (ascii ''error'')]
            | Inr name \<Rightarrow>
                [ShowToast (JStr (success_message name)) (ascii ''success''),
                 SetText [], SetNewNamespace [], CallFetchData])
      else case get ''detail'' (Some data) of
             Inl e \<Rightarrow> [ShowToast (JStr network_message) (ascii ''error'')]
           | Inr d \<Rightarrow> [ShowToast (or_else d (JStr failed_message)) (ascii ''error'')])"

text \<open>
  The handler, on the state \<open>st\<close> of the render it belongs to and on what the \<open>fetch\<close> of
  line 61 comes to. The \<open>finally\<close> of line 78 runs on every path that leaves the
  \<open>try\<close>; an \<open>await\<close> that never resumes leaves nothing.
\<close>

definition handleIngest :: "(jsval \<Rightarrow> exn + jsstring) \<Rightarrow> app_state \<Rightarrow> response promise \<Rightarrow> action list" where
  "handleIngest to_string st resP =
     PreventDefault #
     (let ns = target_namespace st in
      if \<not> truthy ns \<or> trim (text st) = []
      then [ShowToast (JStr required_message) (ascii ''error'')]
      else SetLoading True # Fetch (PostIngest ns (trim (text st))) #
           (case resP of
              Pending \<Rightarrow> []
            | Rejected \<Rightarrow> [ShowToast (JStr network_message) (ascii ''error''), SetLoading False]
            | Fulfilled res \<Rightarrow>
                (case body res of
                   Pending \<Rightarrow> []
                 | Rejected \<Rightarrow> [ShowToast (JStr network_message) (ascii ''error''), SetLoading False]
                 | Fulfilled data \<Rightarrow> on_response to_string ns res data @ [SetLoading False])))"

definition submit :: "(jsval \<Rightarrow> exn + jsstring) \<Rightarrow> nat \<Rightarrow> response promise \<Rightarrow> app_state \<Rightarrow> app_state" where
  "submit to_string now resP st = run now (handleIngest to_string st resP) st"

text \<open>The submission passes the check of line 54.\<close>

definition valid :: "app_state \<Rightarrow> bool" where
  "valid st \<longleftrightarrow> truthy (target_namespace st) \<and> trim (text st) \<noteq> []"

text \<open>The promise of line 61 and, when it is fulfilled, that of line 66 settle.\<close>

fun settled :: "response promise \<Rightarrow> bool" where
  "settled Pending = False"
| "settled Rejected = True"
| "settled (Fulfilled r) = (body r \<noteq> Pending)"

section \<open>formatTime (lines 83 to 92)\<close>

text \<open>
  \<open>date v\<close> is what \<open>new Date(v)\<close> comes to: its time value in milliseconds, \<open>None\<close>
  for an invalid date, or the TypeError of an object with no primitive value. \<open>now\<close> is
  the time value of \<open>new Date()\<close>; \<open>toLocaleDateString\<close> is the engine's. Time values
  are integers of magnitude at most \<open>8.64 * 10^15\<close>, on which the double arithmetic of
  line 87 is exact. With an invalid date \<open>diff\<close> is NaN and every comparison is false.
\<close>

definition formatTime :: "(jsval \<Rightarrow> exn + int option) \<Rightarrow> (int option \<Rightarrow> jsstring) \<Rightarrow> int \<Rightarrow> jsval \<Rightarrow> exn + jsstring" where
  "formatTime date toLocaleDateString now timestamp =
     (if \<not> truthy timestamp then Inr []
      else case date timestamp of
             Inl e \<Rightarrow> Inl e
           | Inr None \<Rightarrow> Inr (toLocaleDateString None)
           | Inr (Some d) \<Rightarrow>
               (let diff = (now - d) div 1000 in
                if diff < 60 then Inr (ascii ''just now'')
                else if diff < 3600 then Inr (number_to_string (diff div 60) @ ascii ''m ago'')
                else if diff < 86400 then Inr (number_to_string (diff div 3600) @ ascii ''h ago'')
                else Inr (toLocaleDateString (Some d))))"

section \<open>An example state\<close>

text \<open>
  A state in which a submission passes the check of line 54: the namespace \<open>ProjectA\<close>
  is selected and the text \<open>note\<close> is typed.
\<close>

definition example_draft :: app_state where
  "example_draft = init\<lparr> selectedNamespace := Some (JStr (ascii ''ProjectA'')), text := ascii ''note'' \<rparr>"

section \<open>Auxiliary facts\<close>

subsection \<open>Running actions\<close>

lemma run_Nil: "run now [] st = st"
  by (simp add: run_def)

lemma run_Cons: "run now (a # as) st = run now as (apply_action now st a)"
  by (simp add: run_def)

lemma run_append: "run now (as @ bs) st = run now bs (run now as st)"
  by (simp add: run_def)

lemma requests_append: "requests (as @ bs) = requests as @ requests bs"
  by (induction as rule: requests.induct) simp_all

subsection \<open>Strings\<close>

lemma trim_all_white:
  assumes "\<forall>u \<in> set s. is_white_space u"
  shows "trim s = []"
proof -
  from assms have a: "dropWhile is_white_space s = []" by simp
  show ?thesis unfolding trim_def a by simp
qed

lemma number_to_string_2: "number_to_string 2 = ascii ''2''"
  by (simp add: number_to_string_def digits.simps[of 2] ascii_def)

subsection \<open>fetchData\<close>




lemma fetchData_succeeds:
  assumes "succeeds_with nsP nsData" "succeeds_with statsP statsData" "succeeds_with recentP recentData"
  shows "fetchData coerce cl nsP statsP recentP =
           [Fetch GetNamespaces, Fetch GetStats,
            Fetch (GetRecent (if truthy (filterNamespace cl) then filterNamespace cl else None))] @
           apply_bodies coerce (selectedNamespace cl) nsData statsData recentData"
proof -
  from assms obtain a b c where "nsP = Fulfilled a" "body a = Fulfilled nsData"
    "statsP = Fulfilled b" "body b = Fulfilled statsData"
    "recentP = Fulfilled c" "body c = Fulfilled recentData"
    by (cases nsP; cases statsP; cases recentP) auto
  then show ?thesis by (simp add: fetchData_def promise_all_def read_bodies_def)
qed

lemma select_default_cases:
  "(\<exists>e. select_default coerce sel nsData = Inl e) \<or> select_default coerce sel nsData = Inr [] \<or>
   (\<exists>n. select_default coerce sel nsData = Inr [SetSelectedNamespace n])"
  by (auto simp: select_default_def split: sum.splits bool.splits)

text \<open>
  The status of a read response plays no part: \<open>fetchData\<close> never looks at \<open>res.ok\<close>,
  so a response with an error status and a JSON body is applied like any other.
\<close>

lemma fetchData_ignores_status:
  "fetchData coerce cl (Fulfilled (a\<lparr>status := i\<rparr>)) (Fulfilled (b\<lparr>status := j\<rparr>))
     (Fulfilled (c\<lparr>status := k\<rparr>)) =
   fetchData coerce cl (Fulfilled a) (Fulfilled b) (Fulfilled c)"
  by (simp add: fetchData_def promise_all_def read_bodies_def split: promise.splits)

subsection \<open>handleIngest\<close>

lemma target_namespace_resolve:
  "target_namespace st =
     (if trim (newNamespace st) \<noteq> [] then Some (JStr (trim (newNamespace st))) else selectedNamespace st)"
  by (simp add: target_namespace_def js_or_def)

lemma handleIngest_valid:
  "valid st \<Longrightarrow>
   handleIngest to_string st resP =
     PreventDefault # SetLoading True # Fetch (PostIngest (target_namespace st) (trim (text st))) #
       (case resP of
          Pending \<Rightarrow> []
        | Rejected \<Rightarrow> [ShowToast (JStr network_message) (ascii ''error''), SetLoading False]
        | Fulfilled res \<Rightarrow>
            (case body res of
               Pending \<Rightarrow> []
             | Rejected \<Rightarrow> [ShowToast (JStr network_message) (ascii ''error''), SetLoading False]
             | Fulfilled data \<Rightarrow> on_response to_string (target_namespace st) res data @ [SetLoading False]))"
  by (simp add: handleIngest_def valid_def Let_def)

lemma handleIngest_invalid:
  "\<not> valid st \<Longrightarrow>
   handleIngest to_string st resP = [PreventDefault, ShowToast (JStr required_message) (ascii ''error'')]"
  by (auto simp add: handleIngest_def valid_def Let_def)

lemma on_response_error:
  "\<not> ok res \<Longrightarrow>
   on_response to_string ns res data =
     [ShowToast (case get ''detail'' (Some data) of Inl e \<Rightarrow> JStr network_message
                 | Inr d \<Rightarrow> or_else d (JStr failed_message)) (ascii ''error'')]"
  by (simp add: on_response_def split: sum.splits)

lemma requests_on_response: "requests (on_response to_string ns res data) = []"
  by (simp add: on_response_def split: sum.splits)

lemma requests_valid:
  "valid st \<Longrightarrow>
   requests (handleIngest to_string st resP) = [PostIngest (target_namespace st) (trim (text st))]"
  by (simp add: handleIngest_valid requests_append requests_on_response split: promise.splits)

lemma valid_example_draft: "valid example_draft"
  by (simp add: valid_def example_draft_def init_def target_namespace_def js_or_def trim_def
      ascii_def is_white_space_def)

section \<open>Claims\<close>

subsection \<open>C1: a sync with a rejected request changes nothing and shows nothing\<close>




subsection \<open>C2: the dismissal timers of showToast\<close>

text \<open>
  C2, as the code has it. A push cancels nothing: it adds a dismissal, due 4000 ms after
  the push, to the pending ones. The notification pushed at \<open>now\<close> is still shown at a
  later instant \<open>t\<close> exactly when neither its own timer nor any timer pending at the push is
  due by \<open>t\<close>; it lasts the full 4000 ms only when no earlier timer falls due in between.
\<close>

theorem showToast_window:
  "timers (showToast now msg ty st) = timers st @ [now + 4000] \<and>
   toast (advance t (showToast now msg ty st)) =
     (if t < now + 4000 \<and> (\<forall>d \<in> set (timers st). t < d)
      then Some \<lparr> message = msg, type = ty \<rparr> else None)"
  by (auto simp: showToast_def advance_def list_ex_iff not_less)

theorem showToast_window_witness:
  "timers (showToast 3000 (JStr (ascii ''B'')) (ascii ''success'') init) = [7000] \<and>
   toast (advance 6999 (showToast 3000 (JStr (ascii ''B'')) (ascii ''success'') init)) =
     Some \<lparr> message = JStr (ascii ''B''), type = ascii ''success'' \<rparr>"
  using showToast_window [of 3000 "JStr (ascii ''B'')" "ascii ''success''" init 6999]
  by (simp add: init_def)

text \<open>
  C2 as stated fails: A is pushed at 0 and B at 3000. After B's push A's timer (due at
  4000) is still pending beside B's (due at 7000); B is shown at 3999 and gone at 4000,
  1000 ms after its push.
\<close>

theorem old_timer_dismisses_new_toast:
  "timers (showToast 3000 (JStr (ascii ''B'')) (ascii ''success'')
      (advance 3000 (showToast 0 (JStr (ascii ''A'')) (ascii ''success'') init))) = [4000, 7000] \<and>
   toast (advance 3999 (showToast 3000 (JStr (ascii ''B'')) (ascii ''success'')
      (advance 3000 (showToast 0 (JStr (ascii ''A'')) (ascii ''success'') init)))) =
     Some \<lparr> message = JStr (ascii ''B''), type = ascii ''success'' \<rparr> \<and>
   toast (advance 4000 (showToast 3000 (JStr (ascii ''B'')) (ascii ''success'')
      (advance 3000 (showToast 0 (JStr (ascii ''A'')) (ascii ''success'') init)))) = None"
  by (simp add: showToast_def advance_def init_def)

subsection \<open>C3: the notification of an HTTP error\<close>

text \<open>
  C3, as the code has it. A valid submission whose request comes to a response that is not
  2xx, and whose body read settles, raises exactly one notification, of type \<open>error\<close>. When
  the body is JSON and not \<open>null\<close>, the message is the body's \<open>detail\<close> if that is truthy
  (present, and not \<open>null\<close>, \<open>false\<close>, \<open>0\<close> or the empty string), and \<open>Ingestion failed\<close>
  otherwise.
\<close>

theorem http_error_notification:
  assumes "valid st" and "\<not> ok res" and "body res \<noteq> Pending"
  shows "(\<exists>m. toasts (handleIngest to_string st (Fulfilled res)) = [(m, ascii ''error'')]) \<and>
         (\<forall>data v. body res = Fulfilled data \<and> get ''detail'' (Some data) = Inr (Some v) \<and> truthy (Some v) \<longrightarrow>
            toasts (handleIngest to_string st (Fulfilled res)) = [(v, ascii ''error'')]) \<and>
         (\<forall>data d. body res = Fulfilled data \<and> get ''detail'' (Some data) = Inr d \<and> \<not> truthy d \<longrightarrow>
            toasts (handleIngest to_string st (Fulfilled res)) = [(JStr failed_message, ascii ''error'')])"
proof (cases "body res")
  case Pending
  with assms show ?thesis by simp
next
  case Rejected
  with assms show ?thesis by (simp add: handleIngest_valid)
next
  case (Fulfilled data)
  with assms have h: "toasts (handleIngest to_string st (Fulfilled res)) =
      [(case get ''detail'' (Some data) of Inl e \<Rightarrow> JStr network_message
                 | Inr d \<Rightarrow> or_else d (JStr failed_message), ascii ''error'')]"
    by (simp add: handleIngest_valid on_response_error)
  have "or_else d (JStr failed_message) = JStr failed_message" if "\<not> truthy d" for d
    using that by (cases d) auto
  with h Fulfilled show ?thesis by auto
qed

text \<open>Status 400 with the body \<open>{ detail: "too long" }\<close>.\<close>

theorem http_error_notification_witness:
  "valid example_draft \<and>
   \<not> ok \<lparr> status = 400, body = Fulfilled (JObj [(ascii ''detail'', JStr (ascii ''too long''))]) \<rparr> \<and>
   toasts (handleIngest (\<lambda>v. Inl TypeError) example_draft
     (Fulfilled \<lparr> status = 400, body = Fulfilled (JObj [(ascii ''detail'', JStr (ascii ''too long''))]) \<rparr>)) =
     [(JStr (ascii ''too long''), ascii ''error'')]"
  using http_error_notification
    [of example_draft "\<lparr> status = 400, body = Fulfilled (JObj [(ascii ''detail'', JStr (ascii ''too long''))]) \<rparr>"
        "\<lambda>v. Inl TypeError"]
  by (simp add: valid_example_draft ok_def ascii_def)

text \<open>
  C3 as stated fails. Status 400 with the body \<open>{ detail: "" }\<close>: the field is present and
  the message is \<open>Ingestion failed\<close>, not the field. Status 500 with a body that is not
  JSON: the message is the one of line 77, not \<open>Ingestion failed\<close>.
\<close>

theorem http_error_message_counterexample:
  "get ''detail'' (Some (JObj [(ascii ''detail'', JStr [])])) = Inr (Some (JStr [])) \<and>
   toasts (handleIngest (\<lambda>v. Inl TypeError) example_draft
     (Fulfilled \<lparr> status = 400, body = Fulfilled (JObj [(ascii ''detail'', JStr [])]) \<rparr>)) =
     [(JStr (ascii ''Ingestion failed''), ascii ''error'')] \<and>
   toasts (handleIngest (\<lambda>v. Inl TypeError) example_draft
     (Fulfilled \<lparr> status = 500, body = Rejected \<rparr>)) =
     [(JStr (ascii ''Network error '' @ [0x2014] @ ascii '' is the backend running?''), ascii ''error'')]"
  by (simp add: handleIngest_valid valid_example_draft on_response_error ok_def failed_message_def
      network_message_def)

subsection \<open>C4: the default selection\<close>

text \<open>
  C4. With the empty string as prior selection and a fetched body whose \<open>namespaces\<close> is a
  non-empty list, lines 37 to 39 call \<open>setSelectedNamespace\<close> with the \<open>name\<close> of the
  first element. With a non-empty prior selection they call no setter, whatever was
  fetched: the selection stays, also when its name is no longer in the list.
\<close>

theorem selection_derivation:
  "(get ''namespaces'' (Some nsData) = Inr (Some (JArr (x # xs))) \<and> get ''name'' (Some x) = Inr n \<longrightarrow>
      select_default coerce (Some (JStr [])) nsData = Inr [SetSelectedNamespace n]) \<and>
   (s \<noteq> [] \<longrightarrow> select_default coerce (Some (JStr s)) nsData = Inr [])"
  by (simp add: select_default_def)

theorem selection_derivation_witness:
  "select_default (\<lambda>v. Inl TypeError) (Some (JStr []))
     (JObj [(ascii ''namespaces'',
        JArr [JObj [(ascii ''name'', JStr (ascii ''ProjectA'')), (ascii ''count'', JNum 3)],
              JObj [(ascii ''name'', JStr (ascii ''ProjectB'')), (ascii ''count'', JNum 1)]])]) =
     Inr [SetSelectedNamespace (Some (JStr (ascii ''ProjectA'')))] \<and>
   select_default (\<lambda>v. Inl TypeError) (Some (JStr (ascii ''Gone'')))
     (JObj [(ascii ''namespaces'',
        JArr [JObj [(ascii ''name'', JStr (ascii ''ProjectA'')), (ascii ''count'', JNum 3)],
              JObj [(ascii ''name'', JStr (ascii ''ProjectB'')), (ascii ''count'', JNum 1)]])]) = Inr []"
  using selection_derivation
    [of "JObj [(ascii ''namespaces'',
        JArr [JObj [(ascii ''name'', JStr (ascii ''ProjectA'')), (ascii ''count'', JNum 3)],
              JObj [(ascii ''name'', JStr (ascii ''ProjectB'')), (ascii ''count'', JNum 1)]])]"
        "JObj [(ascii ''name'', JStr (ascii ''ProjectA'')), (ascii ''count'', JNum 3)]"
        "[JObj [(ascii ''name'', JStr (ascii ''ProjectB'')), (ascii ''count'', JNum 1)]]"
        "Some (JStr (ascii ''ProjectA''))" "\<lambda>v. Inl TypeError" "ascii ''Gone''"]
  by (simp add: ascii_def)

text \<open>
  The same on a whole sync: a truthy selection survives every sync, and a sync whose three
  requests succeed (the recent-documents body not \<open>null\<close>) turns the empty selection into
  the first name.
\<close>

lemma sync_keeps_selection:
  assumes "truthy (selectedNamespace st)"
  shows "selectedNamespace (sync coerce now nsP statsP recentP st) = selectedNamespace st"
proof -
  have a: "selectedNamespace (run now (apply_bodies coerce (selectedNamespace st) x y z) st) = selectedNamespace st"
    for x y z using assms
    by (simp add: apply_bodies_def select_default_def run_def split: sum.splits)
  have b: "selectedNamespace (run now (read_bodies coerce (selectedNamespace st) x y z) st) = selectedNamespace st"
    for x y z using a by (simp add: read_bodies_def run_def split: promise.splits)
  show ?thesis using b
    by (simp add: sync_def fetchData_def run_append run_Cons run_Nil split: promise.splits prod.splits)
qed

lemma sync_selects_first:
  assumes "succeeds_with nsP nsData" "succeeds_with statsP statsData" "succeeds_with recentP recentData"
    and "recentData \<noteq> JNull"
    and "selectedNamespace st = Some (JStr [])"
    and "get ''namespaces'' (Some nsData) = Inr (Some (JArr (x # xs)))" and "get ''name'' (Some x) = Inr n"
  shows "selectedNamespace (sync coerce now nsP statsP recentP st) = n"
proof -
  from assms(4) obtain dv where "get ''documents'' (Some recentData) = Inr dv"
    by (cases recentData) auto
  with assms(5-7) show ?thesis
    by (simp add: sync_def fetchData_succeeds[OF assms(1-3)] apply_bodies_def select_default_def
        run_def)
qed

subsection \<open>C5: a submission that fails the check\<close>

text \<open>
  C5. Let \<open>ns\<close> be the trimmed \<open>newNamespace\<close> if that is not empty, else
  \<open>selectedNamespace\<close>. When \<open>ns\<close> is falsy (the empty string, in particular) or the
  trimmed \<open>text\<close> is empty, the handler does nothing but raise the local error
  notification: it sends no request and never calls \<open>setLoading\<close>, so \<open>loading\<close> is what
  it was.
\<close>

theorem invalid_submission_stays_local:
  assumes "ns = (if trim (newNamespace st) \<noteq> [] then Some (JStr (trim (newNamespace st)))
                 else selectedNamespace st)"
    and "\<not> truthy ns \<or> trim (text st) = []"
  shows "handleIngest to_string st resP =
           [PreventDefault, ShowToast (JStr required_message) (ascii ''error'')] \<and>
         requests (handleIngest to_string st resP) = [] \<and>
         (\<forall>b. SetLoading b \<notin> set (handleIngest to_string st resP)) \<and>
         loading (submit to_string now resP st) = loading st"
proof -
  from assms have "\<not> valid st" by (auto simp: valid_def target_namespace_resolve)
  then have "handleIngest to_string st resP =
           [PreventDefault, ShowToast (JStr required_message) (ascii ''error'')]"
    by (rule handleIngest_invalid)
  then show ?thesis by (simp add: submit_def run_def showToast_def)
qed

text \<open>No namespace typed or selected, the text \<open>hello\<close>.\<close>

theorem invalid_submission_stays_local_witness:
  "\<not> truthy (Some (JStr [])) \<and>
   handleIngest (\<lambda>v. Inl TypeError) (init\<lparr> text := ascii ''hello'' \<rparr>)
       (Fulfilled \<lparr> status = 200, body = Fulfilled JNull \<rparr>) =
     [PreventDefault, ShowToast (JStr (ascii ''Namespace and text are required'')) (ascii ''error'')] \<and>
   loading (submit (\<lambda>v. Inl TypeError) 0 (Fulfilled \<lparr> status = 200, body = Fulfilled JNull \<rparr>)
              (init\<lparr> text := ascii ''hello'' \<rparr>)) = False"
  using invalid_submission_stays_local
    [of "Some (JStr [])" "init\<lparr> text := ascii ''hello'' \<rparr>" "\<lambda>v. Inl TypeError"
        "Fulfilled \<lparr> status = 200, body = Fulfilled JNull \<rparr>" 0]
  by (simp add: init_def trim_def required_message_def)

subsection \<open>C6: a successful submission\<close>

text \<open>
  C6, as the code has it. A valid submission whose request comes to a 2xx response with a
  JSON body, the target namespace being a string (or a value that \<open>${ns}\<close> converts),
  raises exactly one notification, the success message that names the namespace, clears
  \<open>text\<close> and \<open>newNamespace\<close>, and calls \<open>fetchData\<close> exactly once.
\<close>

theorem success_clears_and_syncs:
  assumes "valid st" and "ok res" and "body res = Fulfilled data"
    and "template to_string (target_namespace st) = Inr name"
  shows "handleIngest to_string st (Fulfilled res) =
           [PreventDefault, SetLoading True,
            Fetch (PostIngest (target_namespace st) (trim (text st))),
            ShowToast (JStr (success_message name)) (ascii ''success''),
            SetText [], SetNewNamespace [], CallFetchData, SetLoading False] \<and>
         toasts (handleIngest to_string st (Fulfilled res)) =
           [(JStr (success_message name), ascii ''success'')] \<and>
         count_list (handleIngest to_string st (Fulfilled res)) CallFetchData = 1 \<and>
         text (submit to_string now (Fulfilled res) st) = [] \<and>
         newNamespace (submit to_string now (Fulfilled res) st) = []"
proof -
  from assms have "handleIngest to_string st (Fulfilled res) =
           [PreventDefault, SetLoading True,
            Fetch (PostIngest (target_namespace st) (trim (text st))),
            ShowToast (JStr (success_message name)) (ascii ''success''),
            SetText [], SetNewNamespace [], CallFetchData, SetLoading False]"
    by (simp add: handleIngest_valid on_response_def)
  then show ?thesis by (simp add: submit_def run_def showToast_def)
qed

theorem success_clears_and_syncs_witness:
  "valid example_draft \<and> ok \<lparr> status = 200, body = Fulfilled (JObj []) \<rparr> \<and>
   toasts (handleIngest (\<lambda>v. Inl TypeError) example_draft
     (Fulfilled \<lparr> status = 200, body = Fulfilled (JObj []) \<rparr>)) =
     [(JStr ([0x2713] @ ascii '' Ingested into '' @ [0x22] @ ascii ''ProjectA'' @ [0x22, 0x20, 0x2014] @
             ascii '' now queryable by the AI agent''), ascii ''success'')] \<and>
   count_list (handleIngest (\<lambda>v. Inl TypeError) example_draft
     (Fulfilled \<lparr> status = 200, body = Fulfilled (JObj []) \<rparr>)) CallFetchData = 1 \<and>
   text (submit (\<lambda>v. Inl TypeError) 0 (Fulfilled \<lparr> status = 200, body = Fulfilled (JObj []) \<rparr>)
           example_draft) = []"
  using success_clears_and_syncs
    [of example_draft "\<lparr> status = 200, body = Fulfilled (JObj []) \<rparr>" "JObj []" "\<lambda>v. Inl TypeError"
        "ascii ''ProjectA''" 0]
  by (simp add: valid_example_draft ok_def success_message_def)
     (simp add: example_draft_def init_def target_namespace_def js_or_def trim_def)

text \<open>
  C6 as stated fails: a 204 response has no body, \<open>res.json()\<close> rejects before \<open>res.ok\<close>
  is looked at, and the handler raises the error notification of line 77, keeps the text
  and calls no \<open>fetchData\<close>.
\<close>

theorem success_without_json_body:
  "ok \<lparr> status = 204, body = Rejected \<rparr> \<and>
   handleIngest (\<lambda>v. Inl TypeError) example_draft (Fulfilled \<lparr> status = 204, body = Rejected \<rparr>) =
     [PreventDefault, SetLoading True,
      Fetch (PostIngest (Some (JStr (ascii ''ProjectA''))) (ascii ''note'')),
      ShowToast (JStr (ascii ''Network error '' @ [0x2014] @ ascii '' is the backend running?''))
        (ascii ''error''),
      SetLoading False] \<and>
   text (submit (\<lambda>v. Inl TypeError) 0 (Fulfilled \<lparr> status = 204, body = Rejected \<rparr>) example_draft) =
     ascii ''note''"
  by (simp add: submit_def handleIngest_valid valid_example_draft ok_def network_message_def run_def
      showToast_def)
     (simp add: example_draft_def init_def target_namespace_def js_or_def trim_def ascii_def
      is_white_space_def)

subsection \<open>C7: the loading flag\<close>

text \<open>
  C7. A valid submission calls \<open>setLoading(true)\<close> before it sends the request, and, on
  every path on which the handler ends (the request rejected, the body unreadable, a 2xx
  or another status, an exception on the way), its last action is \<open>setLoading(false)\<close>;
  in between it neither touches the flag nor sends a request. So \<open>loading\<close> is false
  when the handler returns. (A request that never settles leaves no path to return on.)
\<close>

theorem loading_set_and_released:
  assumes "valid st" and "settled resP"
  shows "\<exists>mid. handleIngest to_string st resP =
            [PreventDefault, SetLoading True, Fetch (PostIngest (target_namespace st) (trim (text st)))]
            @ mid @ [SetLoading False] \<and>
          (\<forall>b. SetLoading b \<notin> set mid) \<and> requests mid = [] \<and>
          loading (submit to_string now resP st) = False"
proof -
  let ?err = "[ShowToast (JStr network_message) (ascii ''error'')]"
  have run_mid: "loading (run now ([PreventDefault, SetLoading True, Fetch r] @ mid @ [SetLoading False]) st) = False"
    for r mid by (simp add: run_append run_Cons run_Nil)
  have shape: "\<exists>mid. handleIngest to_string st resP =
            [PreventDefault, SetLoading True, Fetch (PostIngest (target_namespace st) (trim (text st)))]
            @ mid @ [SetLoading False] \<and> (\<forall>b. SetLoading b \<notin> set mid) \<and> requests mid = []"
  proof (cases resP)
    case Pending
    with assms show ?thesis by simp
  next
    case Rejected
    with assms have "handleIngest to_string st resP =
            [PreventDefault, SetLoading True, Fetch (PostIngest (target_namespace st) (trim (text st)))]
            @ ?err @ [SetLoading False]" by (simp add: handleIngest_valid)
    then show ?thesis by (intro exI[of _ ?err]) simp
  next
    case (Fulfilled res)
    show ?thesis
    proof (cases "body res")
      case Pending
      with assms Fulfilled show ?thesis by simp
    next
      case Rejected
      with assms Fulfilled have "handleIngest to_string st resP =
            [PreventDefault, SetLoading True, Fetch (PostIngest (target_namespace st) (trim (text st)))]
            @ ?err @ [SetLoading False]" by (simp add: handleIngest_valid)
      then show ?thesis by (intro exI[of _ ?err]) simp
    next
      case (Fulfilled data)
      let ?mid = "on_response to_string (target_namespace st) res data"
      from assms \<open>resP = Fulfilled res\<close> Fulfilled have "handleIngest to_string st resP =
            [PreventDefault, SetLoading True, Fetch (PostIngest (target_namespace st) (trim (text st)))]
            @ ?mid @ [SetLoading False]" by (simp add: handleIngest_valid)
      moreover have "(\<forall>b. SetLoading b \<notin> set ?mid) \<and> requests ?mid = []"
        by (auto simp: on_response_def split: sum.splits)
      ultimately show ?thesis by blast
    qed
  qed
  then obtain mid where "handleIngest to_string st resP =
            [PreventDefault, SetLoading True, Fetch (PostIngest (target_namespace st) (trim (text st)))]
            @ mid @ [SetLoading False]" "\<forall>b. SetLoading b \<notin> set mid" "requests mid = []" by blast
  then show ?thesis using run_mid[of _ mid] by (auto simp: submit_def)
qed

text \<open>The request is rejected (no response obtained).\<close>

theorem loading_set_and_released_witness:
  "valid example_draft \<and> settled (Rejected :: response promise) \<and>
   handleIngest (\<lambda>v. Inl TypeError) example_draft Rejected =
     [PreventDefault, SetLoading True,
      Fetch (PostIngest (Some (JStr (ascii ''ProjectA''))) (ascii ''note'')),
      ShowToast (JStr network_message) (ascii ''error''), SetLoading False] \<and>
   loading (submit (\<lambda>v. Inl TypeError) 0 Rejected example_draft) = False"
proof -
  have v: "valid example_draft" by (rule valid_example_draft)
  have s: "settled (Rejected :: response promise)" by simp
  from loading_set_and_released [OF v s, of "\<lambda>v. Inl TypeError" 0]
  have "loading (submit (\<lambda>v. Inl TypeError) 0 Rejected example_draft) = False" by blast
  moreover have "handleIngest (\<lambda>v. Inl TypeError) example_draft Rejected =
     [PreventDefault, SetLoading True,
      Fetch (PostIngest (Some (JStr (ascii ''ProjectA''))) (ascii ''note'')),
      ShowToast (JStr network_message) (ascii ''error''), SetLoading False]"
    by (simp add: handleIngest_def example_draft_def init_def target_namespace_def js_or_def trim_def
        ascii_def is_white_space_def)
  ultimately show ?thesis using v s by simp
qed

subsection \<open>C8: formatTime\<close>

text \<open>
  C8. A falsy timestamp (empty or absent) gives the empty string. For a timestamp that is
  a date \<open>d\<close>, with \<open>diff = floor ((now - d) / 1000)\<close>: \<open>just now\<close> when \<open>diff < 60\<close>,
  \<open>floor (diff / 60)\<close> followed by \<open>m ago\<close> when \<open>diff < 3600\<close>, \<open>floor (diff / 3600)\<close>
  followed by \<open>h ago\<close> when \<open>diff < 86400\<close>, and \<open>d.toLocaleDateString()\<close> otherwise. In
  particular 45 s give \<open>just now\<close>, 125 s give \<open>2m ago\<close> and 7300 s give \<open>2h ago\<close>.
\<close>

theorem formatTime_rules:
  "(\<not> truthy timestamp \<longrightarrow> formatTime date toLocaleDateString now timestamp = Inr []) \<and>
   (truthy timestamp \<and> date timestamp = Inr (Some d) \<and> diff = (now - d) div 1000 \<longrightarrow>
      (diff < 60 \<longrightarrow> formatTime date toLocaleDateString now timestamp = Inr (ascii ''just now'')) \<and>
      (60 \<le> diff \<and> diff < 3600 \<longrightarrow> formatTime date toLocaleDateString now timestamp =
          Inr (number_to_string (diff div 60) @ ascii ''m ago'')) \<and>
      (3600 \<le> diff \<and> diff < 86400 \<longrightarrow> formatTime date toLocaleDateString now timestamp =
          Inr (number_to_string (diff div 3600) @ ascii ''h ago'')) \<and>
      (86400 \<le> diff \<longrightarrow> formatTime date toLocaleDateString now timestamp =
          Inr (toLocaleDateString (Some d))) \<and>
      (now - d = 45000 \<longrightarrow> formatTime date toLocaleDateString now timestamp = Inr (ascii ''just now'')) \<and>
      (now - d = 125000 \<longrightarrow> formatTime date toLocaleDateString now timestamp = Inr (ascii ''2m ago'')) \<and>
      (now - d = 7300000 \<longrightarrow> formatTime date toLocaleDateString now timestamp = Inr (ascii ''2h ago'')))"
  by (simp add: formatTime_def Let_def number_to_string_2) (simp add: ascii_def)

theorem formatTime_rules_witness:
  "truthy (Some (JStr (ascii ''2024-01-01T00:00:00Z''))) \<and>
   formatTime (\<lambda>v. Inr (Some 1704067200000)) (\<lambda>t. ascii ''1/1/2024'') 1704067325000
     (Some (JStr (ascii ''2024-01-01T00:00:00Z''))) = Inr (ascii ''2m ago'') \<and>
   formatTime (\<lambda>v. Inr (Some 1704067200000)) (\<lambda>t. ascii ''1/1/2024'') 1704067325000 None = Inr []"
  using formatTime_rules
    [of "Some (JStr (ascii ''2024-01-01T00:00:00Z''))" "\<lambda>v. Inr (Some 1704067200000)"
        "\<lambda>t. ascii ''1/1/2024''" 1704067325000 1704067200000 125]
    formatTime_rules
    [of None "\<lambda>v. Inr (Some 1704067200000)"
        "\<lambda>t. ascii ''1/1/2024''" 1704067325000 1704067200000 125]
  by (simp add: ascii_def number_to_string_2)

subsection \<open>C9: bodies without the expected lists\<close>

text \<open>
  C9, as the code has it. When the three requests succeed and neither the namespaces body
  nor the recent-documents body is \<open>null\<close>, \<open>namespaces\<close> becomes the body's \<open>namespaces\<close>
  property, or the empty list when that is absent or falsy; \<open>recentDocs\<close> likewise from
  \<open>documents\<close>; and \<open>stats\<close> becomes the stats body as it is. A truthy value that is not
  a list is stored as it is.
\<close>

theorem sync_applies_bodies:
  assumes "succeeds_with nsP nsData" "succeeds_with statsP statsData" "succeeds_with recentP recentData"
    and "get ''namespaces'' (Some nsData) = Inr nv" and "get ''documents'' (Some recentData) = Inr dv"
  shows "namespaces (run now (fetchData coerce cl nsP statsP recentP) st) = or_else nv (JArr []) \<and>
         stats (run now (fetchData coerce cl nsP statsP recentP) st) = statsData \<and>
         recentDocs (run now (fetchData coerce cl nsP statsP recentP) st) = or_else dv (JArr []) \<and>
         (\<not> truthy nv \<longrightarrow> namespaces (run now (fetchData coerce cl nsP statsP recentP) st) = JArr []) \<and>
         (\<not> truthy dv \<longrightarrow> recentDocs (run now (fetchData coerce cl nsP statsP recentP) st) = JArr [])"
proof -
  have d: "or_else v (JArr []) = JArr []" if "\<not> truthy v" for v
    using that by (cases v) auto
  from select_default_cases[of coerce "selectedNamespace cl" nsData] assms(4,5)
  have "namespaces (run now (fetchData coerce cl nsP statsP recentP) st) = or_else nv (JArr []) \<and>
         stats (run now (fetchData coerce cl nsP statsP recentP) st) = statsData \<and>
         recentDocs (run now (fetchData coerce cl nsP statsP recentP) st) = or_else dv (JArr [])"
    by (auto simp: fetchData_succeeds[OF assms(1-3)] apply_bodies_def run_def)
  with d show ?thesis by simp
qed

text \<open>
  The namespaces body is \<open>{}\<close>, the stats body the number 5, the recent-documents body
  \<open>{ documents: null }\<close>.
\<close>

theorem sync_applies_bodies_witness:
  "succeeds_with (Fulfilled \<lparr> status = 200, body = Fulfilled (JObj []) \<rparr>) (JObj []) \<and>
   namespaces (run 0 (fetchData (\<lambda>v. Inl TypeError) init
       (Fulfilled \<lparr> status = 200, body = Fulfilled (JObj []) \<rparr>)
       (Fulfilled \<lparr> status = 200, body = Fulfilled (JNum 5) \<rparr>)
       (Fulfilled \<lparr> status = 200, body = Fulfilled (JObj [(ascii ''documents'', JNull)]) \<rparr>))
     (init\<lparr> namespaces := JArr [JNum 1], recentDocs := JArr [JNum 2] \<rparr>)) = JArr [] \<and>
   stats (run 0 (fetchData (\<lambda>v. Inl TypeError) init
       (Fulfilled \<lparr> status = 200, body = Fulfilled (JObj []) \<rparr>)
       (Fulfilled \<lparr> status = 200, body = Fulfilled (JNum 5) \<rparr>)
       (Fulfilled \<lparr> status = 200, body = Fulfilled (JObj [(ascii ''documents'', JNull)]) \<rparr>))
     (init\<lparr> namespaces := JArr [JNum 1], recentDocs := JArr [JNum 2] \<rparr>)) = JNum 5 \<and>
   recentDocs (run 0 (fetchData (\<lambda>v. Inl TypeError) init
       (Fulfilled \<lparr> status = 200, body = Fulfilled (JObj []) \<rparr>)
       (Fulfilled \<lparr> status = 200, body = Fulfilled (JNum 5) \<rparr>)
       (Fulfilled \<lparr> status = 200, body = Fulfilled (JObj [(ascii ''documents'', JNull)]) \<rparr>))
     (init\<lparr> namespaces := JArr [JNum 1], recentDocs := JArr [JNum 2] \<rparr>)) = JArr []"
  using sync_applies_bodies
    [of "Fulfilled \<lparr> status = 200, body = Fulfilled (JObj []) \<rparr>" "JObj []"
        "Fulfilled \<lparr> status = 200, body = Fulfilled (JNum 5) \<rparr>" "JNum 5"
        "Fulfilled \<lparr> status = 200, body = Fulfilled (JObj [(ascii ''documents'', JNull)]) \<rparr>"
        "JObj [(ascii ''documents'', JNull)]" None "Some JNull" 0 "\<lambda>v. Inl TypeError" init
        "init\<lparr> namespaces := JArr [JNum 1], recentDocs := JArr [JNum 2] \<rparr>"]
  by (simp add: ascii_def)

text \<open>
  C9 as stated fails. A namespaces body \<open>{ namespaces: { docs: 3 } }\<close> has no list of
  namespaces, and \<open>namespaces\<close> becomes that object, not the empty list. A
  recent-documents body \<open>null\<close> has no list of documents, and \<open>recentDocs\<close> keeps its
  prior value: \<open>recentData.documents\<close> throws.
\<close>

theorem sync_stores_non_array:
  "namespaces (sync (\<lambda>v. Inl TypeError) 0
       (Fulfilled \<lparr> status = 200, body = Fulfilled (JObj [(ascii ''namespaces'', JObj [(ascii ''docs'', JNum 3)])]) \<rparr>)
       (Fulfilled \<lparr> status = 200, body = Fulfilled (JObj []) \<rparr>)
       (Fulfilled \<lparr> status = 200, body = Fulfilled (JObj [(ascii ''documents'', JArr [])]) \<rparr>)
       init) = JObj [(ascii ''docs'', JNum 3)] \<and>
   recentDocs (sync (\<lambda>v. Inl TypeError) 0
       (Fulfilled \<lparr> status = 200, body = Fulfilled (JObj [(ascii ''namespaces'', JArr [])]) \<rparr>)
       (Fulfilled \<lparr> status = 200, body = Fulfilled (JObj []) \<rparr>)
       (Fulfilled \<lparr> status = 200, body = Fulfilled JNull \<rparr>)
       (init\<lparr> recentDocs := JArr [JNum 2] \<rparr>)) = JArr [JNum 2]"
  by (simp add: sync_def fetchData_def promise_all_def read_bodies_def apply_bodies_def
      select_default_def run_def init_def ascii_def)

subsection \<open>C10: a selected namespace of white space\<close>

text \<open>
  C10. When \<open>selectedNamespace\<close> is a non-empty string of white space, \<open>newNamespace\<close>
  trims to the empty string and \<open>text\<close> does not, the submission passes the check and
  the one request it sends carries that string as namespace, although trimming it would
  leave nothing: only \<open>newNamespace\<close> is trimmed on line 53.
\<close>

theorem whitespace_selection_is_submitted:
  assumes "selectedNamespace st = Some (JStr s)" and "s \<noteq> []" and "\<forall>u \<in> set s. is_white_space u"
    and "trim (newNamespace st) = []" and "trim (text st) \<noteq> []"
  shows "valid st \<and> trim s = [] \<and>
         requests (handleIngest to_string st resP) = [PostIngest (Some (JStr s)) (trim (text st))]"
proof -
  from assms have t: "target_namespace st = Some (JStr s)" by (simp add: target_namespace_resolve)
  with assms have v: "valid st" by (simp add: valid_def)
  from assms have "trim s = []" by (simp add: trim_all_white)
  with v t show ?thesis by (simp add: requests_valid)
qed

text \<open>Two spaces selected, the text \<open>note\<close>.\<close>

theorem whitespace_selection_is_submitted_witness:
  "is_white_space 0x20 \<and>
   valid (init\<lparr> selectedNamespace := Some (JStr [0x20, 0x20]), text := ascii ''note'' \<rparr>) \<and>
   requests (handleIngest (\<lambda>v. Inl TypeError)
      (init\<lparr> selectedNamespace := Some (JStr [0x20, 0x20]), text := ascii ''note'' \<rparr>) Pending) =
     [PostIngest (Some (JStr [0x20, 0x20])) (ascii ''note'')]"
proof -
  let ?st = "init\<lparr> selectedNamespace := Some (JStr [0x20, 0x20]), text := ascii ''note'' \<rparr>"
  have w: "is_white_space 0x20" by (simp add: is_white_space_def)
  have a: "selectedNamespace ?st = Some (JStr [0x20, 0x20])" by simp
  have b: "[0x20, 0x20 :: 16 word] \<noteq> []" by simp
  have c: "\<forall>u \<in> set [0x20, 0x20 :: 16 word]. is_white_space u" using w by simp
  have d: "trim (newNamespace ?st) = []" by (simp add: init_def trim_def)
  have e: "trim (text ?st) = ascii ''note''" by (simp add: init_def trim_def ascii_def is_white_space_def)
  then have e': "trim (text ?st) \<noteq> []" by (simp add: ascii_def)
  from whitespace_selection_is_submitted [OF a b c d e', of "\<lambda>v. Inl TypeError" Pending] w e
  show ?thesis by simp
qed

end
